theory Spec2Isabelle
  imports Complex_Main
begin

section \<open>The zoomable view component\<close>

text \<open>
  A shallow embedding of the class \<open>ReactNativeZoomableView\<close>. JavaScript numbers are
  modelled by \<^typ>\<open>real\<close>: rounding, NaN and the infinities of IEEE doubles are outside
  the model. An optional number (\<open>undefined\<close> or \<open>null\<close>) is a \<^typ>\<open>real option\<close>; a
  boolean property is its truthiness. Where JavaScript divides by zero it yields an
  infinity or NaN; the model has neither, and \<open>a / 0\<close> is \<open>0\<close> in it. Private members lose
  their leading underscores (\<open>__setOffset\<close> is \<open>setOffset\<close>, \<open>_handlePinching\<close> is
  \<open>handlePinching\<close>). Every operation takes the instance and returns the new one.
\<close>

subsection \<open>Data\<close>

record Vec2D =
  x :: real
  y :: real

text \<open>The \<open>id\<close> of a touch point is the decimal string of a timestamp; the model keeps the
  timestamp.\<close>

record TouchPoint = Vec2D +
  touchId :: real
  isSecondTap :: bool

datatype gesture = Pinch | Shift

datatype axis = AxisX | AxisY

text \<open>The part of the native event and of the responder's gesture state that the component reads.\<close>

record GestureResponderEvent =
  pageX :: real
  pageY :: real

record PanResponderGestureState =
  numberActiveTouches :: nat
  dx :: real
  dy :: real
  moveX :: real
  moveY :: real
  vx :: real
  vy :: real

text \<open>The object handed to the callbacks: zoomLevel, offsetX, offsetY, originalHeight,
  originalWidth, originalPageX, originalPageY.\<close>

datatype ZoomableViewEvent = ZoomableViewEvent real real real real real real real

type_synonym callback =
  "GestureResponderEvent option \<Rightarrow> PanResponderGestureState option \<Rightarrow> ZoomableViewEvent \<Rightarrow> bool"

text \<open>
  The properties the gesture engine reads. Of the callbacks, the record keeps those whose
  result (or whose presence) steers the component; the others only notify the client.
  A callback is a function of its arguments and does not touch the instance. The debug
  overlay (\<open>debug\<close>, \<open>debugPoints\<close>) is left out.
\<close>

record ReactNativeZoomableViewProps =
  zoomEnabled :: bool
  panEnabled :: bool
  initialZoom :: "real option"
  initialOffsetX :: "real option"
  initialOffsetY :: "real option"
  contentWidth :: "real option"
  contentHeight :: "real option"
  panBoundaryPadding :: "real option"
  maxZoom :: "real option"
  minZoom :: "real option"
  doubleTapDelay :: "real option"
  doubleTapZoomToCenter :: bool
  bindToBorders :: bool
  zoomStep :: "real option"
  pinchToZoomInSensitivity :: "real option"
  pinchToZoomOutSensitivity :: "real option"
  movementSensibility :: "real option"
  disablePanOnInitialZoom :: bool
  disableMomentum :: bool
  animatePin :: bool
  staticPinPosition :: "Vec2D option"
  onLongPress :: "callback option"
  onPanResponderMove :: "callback option"
  onZoomBefore :: "callback option"
  onShiftingBefore :: "callback option"

record ReactNativeZoomableViewState =
  originalWidth :: real
  originalHeight :: real
  originalPageX :: real
  originalPageY :: real
  stateTouches :: "TouchPoint list"

record offsetState =
  offsetValue :: real
  boundaryCrossedAnimInEffect :: bool

text \<open>
  The animated values belong to the host framework. The component hands it animations to
  run and asks it to stop them; the model records these calls in order. The targets are
  the arguments of \<open>getBoundaryCrossedAnim\<close>, \<open>getPanMomentumDecayAnim\<close>,
  \<open>getZoomToAnimation\<close> and of the timing animation of the pin.
\<close>

datatype animCall =
    BoundaryCrossedAnimStart axis real
  | PanMomentumDecayAnimStart real real
  | ZoomToAnimationStart real
  | PinTimingStart real real
  | PanAnimStop
  | ZoomAnimStop

text \<open>
  The helpers imported from \<open>./helper\<close> are not part of the sources at hand; every
  operation takes them as a parameter.
\<close>

record helpers =
  calcGestureCenterPoint :: "GestureResponderEvent \<Rightarrow> PanResponderGestureState \<Rightarrow> Vec2D option"
  calcGestureTouchDistance :: "GestureResponderEvent \<Rightarrow> PanResponderGestureState \<Rightarrow> real option"
  calcNewScaledOffsetForZoomCentering :: "real \<Rightarrow> real \<Rightarrow> real \<Rightarrow> real \<Rightarrow> real \<Rightarrow> real"
  applyPanBoundariesToOffset :: "real \<Rightarrow> real \<Rightarrow> real \<Rightarrow> real \<Rightarrow> real \<Rightarrow> real"

text \<open>
  The instance: \<open>offsets\<close> is \<open>__offsets\<close>, \<open>panAnim\<close> and \<open>zoomAnim\<close> hold the current
  value of the animated values, \<open>zoomAnimListeners\<close> the listeners that \<open>zoomTo\<close> has
  added (zoom centre and previous scale), \<open>longPressTimeout\<close> and \<open>singleTapTimeoutId\<close>
  say whether the timer is pending.
\<close>

record ReactNativeZoomableView =
  props :: ReactNativeZoomableViewProps
  state :: ReactNativeZoomableViewState
  offsets :: "axis \<Rightarrow> offsetState"
  zoomLevel :: real
  lastGestureCenterPosition :: "Vec2D option"
  lastGestureTouchDistance :: "real option"
  gestureType :: "gesture option"
  gestureStarted :: bool
  longPressTimeout :: bool
  singleTapTimeoutId :: bool
  touches :: "TouchPoint list"
  doubleTapFirstTap :: "TouchPoint option"
  doubleTapFirstTapReleaseTimestamp :: "real option"
  panAnim :: Vec2D
  zoomAnim :: real
  zoomAnimListeners :: "(Vec2D \<times> real) list"
  animCalls :: "animCall list"

subsection \<open>JavaScript values\<close>

text \<open>A number or \<open>undefined\<close> used as a condition: true unless it is missing or zero.\<close>

definition truthy :: "real option \<Rightarrow> bool" where
  "truthy v = (case v of None \<Rightarrow> False | Some r \<Rightarrow> r \<noteq> 0)"

text \<open>\<open>a || b\<close> on an optional number and a number.\<close>

definition orElse :: "real option \<Rightarrow> real \<Rightarrow> real" where
  "orElse v d = (case v of None \<Rightarrow> d | Some r \<Rightarrow> if r \<noteq> 0 then r else d)"

text \<open>
  \<open>Number.prototype.toFixed\<close>: below \<open>10^21\<close> in magnitude the string is the sign
  (present when the number is negative) and the magnitude rounded to \<open>f\<close> decimals, a
  tie going up; from \<open>10^21\<close> on it is the exponential notation of the number itself.
  Two results are the same string exactly when they are the same value here.
\<close>

datatype fixedString = Decimal bool int | Exponential real

definition toFixed :: "nat \<Rightarrow> real \<Rightarrow> fixedString" where
  "toFixed f v =
     (if 10 ^ 21 \<le> \<bar>v\<bar> then Exponential v
      else Decimal (v < 0) \<lfloor>\<bar>v\<bar> * 10 ^ f + 1 / 2\<rfloor>)"

subsection \<open>Offsets and animated values\<close>

definition offsetX :: "ReactNativeZoomableView \<Rightarrow> real" where
  "offsetX s = offsetValue (offsets s AxisX)"

definition offsetY :: "ReactNativeZoomableView \<Rightarrow> real" where
  "offsetY s = offsetValue (offsets s AxisY)"

definition setOffset :: "helpers \<Rightarrow> axis \<Rightarrow> real \<Rightarrow> ReactNativeZoomableView \<Rightarrow> ReactNativeZoomableView" where
  "setOffset h ax offset s =
     (let offsetSt = offsets s ax;
          stored = s\<lparr>offsets := (offsets s)(ax := offsetSt\<lparr>offsetValue := offset\<rparr>)\<rparr>
      in if bindToBorders (props s) then
           (let containerSize =
                  (if ax = AxisX then originalWidth (state s) else originalHeight (state s));
                contentSize =
                  (if ax = AxisX then orElse (contentWidth (props s)) (originalWidth (state s))
                   else orElse (contentHeight (props s)) (originalHeight (state s)));
                boundOffset =
                  (case panBoundaryPadding (props s) of
                     Some padding \<Rightarrow>
                       if contentSize \<noteq> 0 \<and> containerSize \<noteq> 0
                       then applyPanBoundariesToOffset h offset containerSize contentSize
                              (zoomLevel s) padding
                       else offset
                   | None \<Rightarrow> offset)
            in if gestureType s = None \<and> \<not> boundaryCrossedAnimInEffect offsetSt
                  \<and> boundOffset \<noteq> offset \<and> toFixed 3 boundOffset \<noteq> toFixed 3 offset
               then s\<lparr>offsets := (offsets s)(ax := offsetSt\<lparr>boundaryCrossedAnimInEffect := True\<rparr>),
                      animCalls := animCalls s @ [BoundaryCrossedAnimStart ax boundOffset]\<rparr>
               else stored)
         else stored)"

text \<open>
  \<open>setValue\<close> on an animated value stores the value and runs the listeners the
  constructor has registered. The zoom listener assigns \<open>zoomLevel\<close>. The pan value has
  two components, set one after the other, and its listener runs after each with the pair
  as it then stands, assigning \<open>offsetX\<close> and \<open>offsetY\<close>: first with the new \<open>x\<close> and the
  old \<open>y\<close>, then with both new. Animations run in later turns of the event loop; what
  \<open>setValue\<close> does to one in flight is the framework's and not part of the model.
\<close>

definition panAnim_setValue :: "helpers \<Rightarrow> Vec2D \<Rightarrow> ReactNativeZoomableView \<Rightarrow> ReactNativeZoomableView" where
  "panAnim_setValue h v s =
     (let s1 = s\<lparr>panAnim := (panAnim s)\<lparr>x := x v\<rparr>\<rparr>;
          s2 = setOffset h AxisY (y (panAnim s1)) (setOffset h AxisX (x (panAnim s1)) s1);
          s3 = s2\<lparr>panAnim := (panAnim s2)\<lparr>y := y v\<rparr>\<rparr>
      in setOffset h AxisY (y (panAnim s3)) (setOffset h AxisX (x (panAnim s3)) s3))"

definition zoomAnim_setValue :: "real \<Rightarrow> ReactNativeZoomableView \<Rightarrow> ReactNativeZoomableView" where
  "zoomAnim_setValue v s = s\<lparr>zoomAnim := v, zoomLevel := v\<rparr>"

definition getZoomableViewEventObject :: "ReactNativeZoomableView \<Rightarrow> ZoomableViewEvent" where
  "getZoomableViewEventObject s =
     ZoomableViewEvent (zoomLevel s) (offsetX s) (offsetY s)
       (originalHeight (state s)) (originalWidth (state s))
       (originalPageX (state s)) (originalPageY (state s))"

text \<open>A callback that may veto: absent, it does not.\<close>

definition vetoes :: "callback option \<Rightarrow> GestureResponderEvent option \<Rightarrow>
    PanResponderGestureState option \<Rightarrow> ReactNativeZoomableView \<Rightarrow> bool" where
  "vetoes cb e g s =
     (case cb of None \<Rightarrow> False | Some f \<Rightarrow> f e g (getZoomableViewEventObject s))"

definition raisePin :: "ReactNativeZoomableView \<Rightarrow> ReactNativeZoomableView" where
  "raisePin s =
     (if \<not> animatePin (props s) then s
      else s\<lparr>animCalls := animCalls s @ [PinTimingStart 0 (- 10)]\<rparr>)"

definition dropPin :: "ReactNativeZoomableView \<Rightarrow> ReactNativeZoomableView" where
  "dropPin s =
     (if \<not> animatePin (props s) then s
      else s\<lparr>animCalls := animCalls s @ [PinTimingStart 0 0]\<rparr>)"

subsection \<open>Programmatic zoom\<close>

definition getNextZoomStep :: "ReactNativeZoomableView \<Rightarrow> real option" where
  "getNextZoomStep s =
     (case maxZoom (props s) of
        None \<Rightarrow> None
      | Some mx \<Rightarrow>
          if toFixed 2 (zoomLevel s) = toFixed 2 mx then initialZoom (props s)
          else (case zoomStep (props s) of
                  None \<Rightarrow> None
                | Some st \<Rightarrow>
                    (let nextZoomStep = zoomLevel s * (1 + st)
                     in if nextZoomStep > mx then Some mx else Some nextZoomStep)))"

text \<open>
  \<open>zoomTo\<close> returns its boolean and the instance. With a zoom centre it adds a listener
  to the zoom value, which the framework calls on every frame of the animation.
\<close>

definition zoomTo :: "real \<Rightarrow> Vec2D option \<Rightarrow> ReactNativeZoomableView \<Rightarrow> bool \<times> ReactNativeZoomableView" where
  "zoomTo newZoomLevel zoomCenter s =
     (if \<not> zoomEnabled (props s) then (False, s)
      else if (case maxZoom (props s) of None \<Rightarrow> False
               | Some mx \<Rightarrow> mx \<noteq> 0 \<and> newZoomLevel > mx) then (False, s)
      else if (case minZoom (props s) of None \<Rightarrow> False
               | Some mn \<Rightarrow> mn \<noteq> 0 \<and> newZoomLevel < mn) then (False, s)
      else
        (let s1 = (case zoomCenter of
                     None \<Rightarrow> s
                   | Some c \<Rightarrow> s\<lparr>zoomAnimListeners := zoomAnimListeners s @ [(c, zoomLevel s)]\<rparr>)
         in (True, s1\<lparr>animCalls := animCalls s1 @ [ZoomToAnimationStart newZoomLevel]\<rparr>)))"

definition zoomBy :: "real option \<Rightarrow> ReactNativeZoomableView \<Rightarrow> bool \<times> ReactNativeZoomableView" where
  "zoomBy zoomLevelChange s =
     (let change = orElse zoomLevelChange (orElse (zoomStep (props s)) 0)
      in zoomTo (zoomLevel s + change) None s)"

subsection \<open>Taps\<close>

definition addTouch :: "TouchPoint \<Rightarrow> ReactNativeZoomableView \<Rightarrow> ReactNativeZoomableView" where
  "addTouch touch s =
     s\<lparr>touches := touches s @ [touch],
       state := (state s)\<lparr>stateTouches := touches s @ [touch]\<rparr>\<rparr>"

definition handleDoubleTap :: "GestureResponderEvent \<Rightarrow> ReactNativeZoomableView \<Rightarrow> ReactNativeZoomableView" where
  "handleDoubleTap e s =
     (case getNextZoomStep s of
        None \<Rightarrow> s
      | Some nextZoomStep \<Rightarrow>
          (let zoomPositionCoordinates =
                 (if doubleTapZoomToCenter (props s) then \<lparr>x = 0, y = 0\<rparr>
                  else \<lparr>x = pageX e - originalPageX (state s),
                        y = pageY e - originalPageY (state s)\<rparr>)
           in snd (zoomTo nextZoomStep (Some zoomPositionCoordinates) s)))"

text \<open>
  \<open>now\<close> is the value of \<open>Date.now()\<close>. The single-tap timer only becomes pending here;
  what it does when it fires belongs to a later turn of the event loop.
\<close>

definition resolveAndHandleTap :: "real \<Rightarrow> GestureResponderEvent \<Rightarrow> ReactNativeZoomableView \<Rightarrow> ReactNativeZoomableView" where
  "resolveAndHandleTap now e s =
     (if (case doubleTapFirstTapReleaseTimestamp s of
            None \<Rightarrow> False
          | Some ts \<Rightarrow> ts \<noteq> 0 \<and>
              (case doubleTapDelay (props s) of
                 None \<Rightarrow> False
               | Some delay \<Rightarrow> delay \<noteq> 0 \<and> now - ts < delay))
      then
        (let s1 = (case doubleTapFirstTap s of
                     None \<Rightarrow> s
                   | Some t \<Rightarrow> addTouch (t\<lparr>touchId := now, isSecondTap := True\<rparr>) s);
             s2 = s1\<lparr>singleTapTimeoutId := False,
                     doubleTapFirstTapReleaseTimestamp := None,
                     doubleTapFirstTap := None\<rparr>
         in handleDoubleTap e s2)
      else
        (let tap = \<lparr>x = pageX e - originalPageX (state s),
                    y = pageY e - originalPageY (state s),
                    touchId = now, isSecondTap = False\<rparr>;
             s1 = s\<lparr>doubleTapFirstTapReleaseTimestamp := Some now,
                    doubleTapFirstTap := Some tap\<rparr>
         in (addTouch tap s1)\<lparr>singleTapTimeoutId := True\<rparr>))"

subsection \<open>The gesture handlers\<close>

definition handlePanResponderGrant :: "ReactNativeZoomableView \<Rightarrow> ReactNativeZoomableView" where
  "handlePanResponderGrant s =
     (let s1 = (if onLongPress (props s) \<noteq> None then s\<lparr>longPressTimeout := True\<rparr> else s);
          s2 = s1\<lparr>animCalls := animCalls s1 @ [PanAnimStop, ZoomAnimStop]\<rparr>;
          s3 = s2\<lparr>gestureStarted := True\<rparr>
      in raisePin s3)"

definition handlePanResponderEnd :: "real \<Rightarrow> GestureResponderEvent \<Rightarrow> PanResponderGestureState \<Rightarrow>
    ReactNativeZoomableView \<Rightarrow> ReactNativeZoomableView" where
  "handlePanResponderEnd now e g s =
     (let s1 = (if gestureType s = None then resolveAndHandleTap now e s else s);
          s2 = s1\<lparr>lastGestureCenterPosition := None\<rparr>;
          noMomentum =
            (disableMomentum (props s2) \<or>
             (panEnabled (props s2) \<and> gestureType s2 = Some Shift
              \<and> disablePanOnInitialZoom (props s2)
              \<and> Some (zoomLevel s2) = initialZoom (props s2)));
          s3 = (if \<not> noMomentum
                then s2\<lparr>animCalls := animCalls s2 @
                          [PanMomentumDecayAnimStart (vx g / zoomLevel s2) (vy g / zoomLevel s2)]\<rparr>
                else s2);
          s4 = s3\<lparr>longPressTimeout := False\<rparr>;
          s5 = dropPin s4
      in s5\<lparr>gestureType := None, gestureStarted := False\<rparr>)"

definition calcOffsetShiftSinceLastGestureState :: "Vec2D \<Rightarrow> ReactNativeZoomableView \<Rightarrow>
    Vec2D option \<times> ReactNativeZoomableView" where
  "calcOffsetShiftSinceLastGestureState gestureCenterPoint s =
     (let shift =
            (case lastGestureCenterPosition s of
               None \<Rightarrow> None
             | Some l \<Rightarrow>
                 (case movementSensibility (props s) of
                    None \<Rightarrow> None
                  | Some m \<Rightarrow>
                      if m = 0 then None
                      else Some \<lparr>x = (x gestureCenterPoint - x l) / zoomLevel s / m,
                                 y = (y gestureCenterPoint - y l) / zoomLevel s / m\<rparr>))
      in (shift, s\<lparr>lastGestureCenterPosition := Some gestureCenterPoint\<rparr>))"

definition setNewOffsetPosition :: "helpers \<Rightarrow> real \<Rightarrow> real \<Rightarrow> ReactNativeZoomableView \<Rightarrow> ReactNativeZoomableView" where
  "setNewOffsetPosition h newOffsetX newOffsetY s =
     (if vetoes (onShiftingBefore (props s)) None None s then s
      else
        (let s1 = setOffset h AxisX newOffsetX s;
             s2 = setOffset h AxisY newOffsetY s1;
             s3 = panAnim_setValue h \<lparr>x = offsetX s2, y = offsetY s2\<rparr> s2
         in zoomAnim_setValue (zoomLevel s3) s3))"

definition handleShifting :: "helpers \<Rightarrow> PanResponderGestureState \<Rightarrow> ReactNativeZoomableView \<Rightarrow> ReactNativeZoomableView" where
  "handleShifting h g s =
     (if \<not> panEnabled (props s) \<or>
         (disablePanOnInitialZoom (props s) \<and> Some (zoomLevel s) = initialZoom (props s))
      then s
      else
        (case calcOffsetShiftSinceLastGestureState \<lparr>x = moveX g, y = moveY g\<rparr> s of
           (None, s1) \<Rightarrow> s1
         | (Some shift, s1) \<Rightarrow>
             raisePin (setNewOffsetPosition h (offsetX s1 + x shift) (offsetY s1 + y shift) s1)))"

text \<open>The two tests that keep the new zoom level within \<open>maxZoom\<close> and \<open>minZoom\<close>.\<close>

definition respectZoomLimits :: "real option \<Rightarrow> real option \<Rightarrow> real \<Rightarrow> real" where
  "respectZoomLimits mx mn newZoomLevel =
     (let z1 = (case mx of None \<Rightarrow> newZoomLevel
                | Some m \<Rightarrow> if newZoomLevel > m then m else newZoomLevel)
      in (case mn of None \<Rightarrow> z1 | Some m \<Rightarrow> if z1 < m then m else z1))"

definition handlePinching :: "helpers \<Rightarrow> GestureResponderEvent \<Rightarrow> PanResponderGestureState \<Rightarrow>
    ReactNativeZoomableView \<Rightarrow> ReactNativeZoomableView" where
  "handlePinching h e g s =
     (if \<not> zoomEnabled (props s) then s
      else if vetoes (onZoomBefore (props s)) (Some e) (Some g) s then s
      else if \<not> truthy (calcGestureTouchDistance h e g) then s
      else if \<not> truthy (lastGestureTouchDistance s) then s
      else
        (let distance = the (calcGestureTouchDistance h e g);
             zoomGrowthFromLastGestureState = distance / the (lastGestureTouchDistance s);
             s1 = s\<lparr>lastGestureTouchDistance := Some distance\<rparr>;
             pinchToZoomSensitivity =
               (if zoomGrowthFromLastGestureState < 1 then pinchToZoomOutSensitivity (props s)
                else pinchToZoomInSensitivity (props s))
         in case pinchToZoomSensitivity of
              None \<Rightarrow> s1
            | Some sens \<Rightarrow>
                (let deltaGrowth = zoomGrowthFromLastGestureState - 1;
                     deltaGrowthAdjustedBySensitivity = deltaGrowth * (1 - (sens * 9) / 100);
                     newZoomLevel =
                       respectZoomLimits (maxZoom (props s)) (minZoom (props s))
                         (zoomLevel s * (1 + deltaGrowthAdjustedBySensitivity))
                 in case calcGestureCenterPoint h e g of
                      None \<Rightarrow> s1
                    | Some gestureCenterPoint \<Rightarrow>
                        (let zoomCenter =
                               (case staticPinPosition (props s) of
                                  None \<Rightarrow> \<lparr>x = x gestureCenterPoint - originalPageX (state s),
                                            y = y gestureCenterPoint - originalPageY (state s)\<rparr>
                                | Some pin \<Rightarrow> \<lparr>x = x pin, y = y pin\<rparr>)
                         in if originalHeight (state s) = 0 \<or> originalWidth (state s) = 0 then s1
                            else
                              (let offsetY0 = calcNewScaledOffsetForZoomCentering h (offsetY s1)
                                     (originalHeight (state s)) (zoomLevel s1) newZoomLevel
                                     (y zoomCenter);
                                   offsetX0 = calcNewScaledOffsetForZoomCentering h (offsetX s1)
                                     (originalWidth (state s)) (zoomLevel s1) newZoomLevel
                                     (x zoomCenter);
                                   (offsetShift, s2) =
                                     calcOffsetShiftSinceLastGestureState gestureCenterPoint s1;
                                   offsetX1 = (case offsetShift of None \<Rightarrow> offsetX0
                                               | Some sh \<Rightarrow> offsetX0 + x sh);
                                   offsetY1 = (case offsetShift of None \<Rightarrow> offsetY0
                                               | Some sh \<Rightarrow> offsetY0 + y sh);
                                   s3 = setOffset h AxisX offsetX1 s2;
                                   s4 = setOffset h AxisY offsetY1 s3;
                                   s5 = s4\<lparr>zoomLevel := newZoomLevel\<rparr>;
                                   s6 = panAnim_setValue h \<lparr>x = offsetX s5, y = offsetY s5\<rparr> s5
                               in zoomAnim_setValue (zoomLevel s6) s6)))))"

text \<open>
  The result of \<open>_handlePanResponderMove\<close> is \<open>false\<close>, \<open>true\<close> or nothing
  (\<open>undefined\<close>, here \<open>None\<close>).
\<close>

definition handlePanResponderMove :: "helpers \<Rightarrow> real \<Rightarrow> GestureResponderEvent \<Rightarrow>
    PanResponderGestureState \<Rightarrow> ReactNativeZoomableView \<Rightarrow> bool option \<times> ReactNativeZoomableView" where
  "handlePanResponderMove h now e g s =
     (if vetoes (onPanResponderMove (props s)) (Some e) (Some g) s then (Some False, s)
      else if \<not> numberActiveTouches g \<le> 2 then
        (Some True, if gestureStarted s then handlePanResponderEnd now e g s else s)
      else
        (let s0 = (if \<not> gestureStarted s then handlePanResponderGrant s else s)
         in if numberActiveTouches g = 2 then
              (let s1 = s0\<lparr>longPressTimeout := False\<rparr>;
                   s2 = (if gestureType s1 \<noteq> Some Pinch
                         then s1\<lparr>lastGestureCenterPosition := calcGestureCenterPoint h e g,
                                 lastGestureTouchDistance := calcGestureTouchDistance h e g\<rparr>
                         else s1);
                   s3 = s2\<lparr>gestureType := Some Pinch\<rparr>
               in (None, handlePinching h e g s3))
            else if numberActiveTouches g = 1 then
              (let s1 = (if longPressTimeout s0 \<and> (\<bar>dx g\<bar> > 5 \<or> \<bar>dy g\<bar> > 5)
                         then s0\<lparr>longPressTimeout := False\<rparr> else s0);
                   s2 = (if gestureType s1 \<noteq> Some Shift
                         then s1\<lparr>lastGestureCenterPosition := calcGestureCenterPoint h e g\<rparr>
                         else s1);
                   isShiftGesture = (\<bar>dx g\<bar> > 2 \<or> \<bar>dy g\<bar> > 2)
               in if isShiftGesture
                  then (None, handleShifting h g (s2\<lparr>gestureType := Some Shift\<rparr>))
                  else (None, s2))
            else (None, s0)))"

subsection \<open>Rendering\<close>

text \<open>
  The entries a transform list can hold, and the transform that \<open>render\<close> gives the
  child view. \<open>getTranslateTransform\<close> is the framework's method of an animated
  vector; it yields the translation along each axis.
\<close>

datatype transformEntry =
    Perspective real
  | Rotate real
  | RotateX real
  | RotateY real
  | RotateZ real
  | Scale real
  | ScaleX real
  | ScaleY real
  | TranslateX real
  | TranslateY real
  | SkewX real
  | SkewY real
  | Matrix "real list"

definition getTranslateTransform :: "Vec2D \<Rightarrow> transformEntry list" where
  "getTranslateTransform v = [TranslateX (x v), TranslateY (y v)]"

definition render_transform :: "ReactNativeZoomableView \<Rightarrow> transformEntry list" where
  "render_transform s = Scale (zoomAnim s) # getTranslateTransform (panAnim s)"

fun isScale :: "transformEntry \<Rightarrow> bool" where
  "isScale (Scale v) = True"
| "isScale _ = False"

fun isTranslation :: "transformEntry \<Rightarrow> bool" where
  "isTranslation (TranslateX v) = True"
| "isTranslation (TranslateY v) = True"
| "isTranslation _ = False"

fun isRotationOrSkew :: "transformEntry \<Rightarrow> bool" where
  "isRotationOrSkew (Rotate v) = True"
| "isRotationOrSkew (RotateX v) = True"
| "isRotationOrSkew (RotateY v) = True"
| "isRotationOrSkew (RotateZ v) = True"
| "isRotationOrSkew (SkewX v) = True"
| "isRotationOrSkew (SkewY v) = True"
| "isRotationOrSkew _ = False"

subsection \<open>Construction and measurement\<close>

definition defaultProps :: ReactNativeZoomableViewProps where
  "defaultProps =
     \<lparr>zoomEnabled = True, panEnabled = True, initialZoom = Some 1,
      initialOffsetX = Some 0, initialOffsetY = Some 0,
      contentWidth = None, contentHeight = None, panBoundaryPadding = Some 0,
      maxZoom = Some (3 / 2), minZoom = Some (1 / 2), doubleTapDelay = Some 300,
      doubleTapZoomToCenter = False, bindToBorders = True, zoomStep = Some (1 / 2),
      pinchToZoomInSensitivity = Some 1, pinchToZoomOutSensitivity = Some 1,
      movementSensibility = Some 1, disablePanOnInitialZoom = False,
      disableMomentum = False, animatePin = True, staticPinPosition = None,
      onLongPress = None, onPanResponderMove = None, onZoomBefore = None,
      onShiftingBefore = None\<rparr>"

definition initialState :: ReactNativeZoomableViewState where
  "initialState =
     \<lparr>originalWidth = 0, originalHeight = 0, originalPageX = 0, originalPageY = 0,
      stateTouches = []\<rparr>"

text \<open>The constructor. The listeners are added after the animated values are set.\<close>

definition construct :: "helpers \<Rightarrow> ReactNativeZoomableViewProps \<Rightarrow> ReactNativeZoomableView" where
  "construct h p =
     (let s0 = \<lparr>props = p, state = initialState,
                 offsets = (\<lambda>ax. \<lparr>offsetValue = 0, boundaryCrossedAnimInEffect = False\<rparr>),
                 zoomLevel = 1, lastGestureCenterPosition = None,
                 lastGestureTouchDistance = None, gestureType = None,
                 gestureStarted = False, longPressTimeout = False,
                 singleTapTimeoutId = False, touches = [], doubleTapFirstTap = None,
                 doubleTapFirstTapReleaseTimestamp = None,
                 panAnim = \<lparr>x = 0, y = 0\<rparr>, zoomAnim = 1, zoomAnimListeners = [],
                 animCalls = []\<rparr>;
          s1 = (case initialZoom p of
                  None \<Rightarrow> s0
                | Some z \<Rightarrow> if z \<noteq> 0 then s0\<lparr>zoomLevel := z\<rparr> else s0);
          s2 = (case initialOffsetX p of None \<Rightarrow> s1 | Some v \<Rightarrow> setOffset h AxisX v s1);
          s3 = (case initialOffsetY p of None \<Rightarrow> s2 | Some v \<Rightarrow> setOffset h AxisY v s2);
          s4 = s3\<lparr>panAnim := \<lparr>x = offsetX s3, y = offsetY s3\<rparr>, zoomAnim := zoomLevel s3\<rparr>
      in s4\<lparr>lastGestureTouchDistance := Some 150, gestureType := None\<rparr>)"

text \<open>
  The callback of \<open>measure\<close> in \<open>measureZoomSubject\<close>, on the width, height and page
  position it is given.
\<close>

definition measured :: "real \<Rightarrow> real \<Rightarrow> real \<Rightarrow> real \<Rightarrow> ReactNativeZoomableView \<Rightarrow> ReactNativeZoomableView" where
  "measured width height pgX pgY s =
     (if pgX = 0 \<and> pgY = 0 \<and> width = 0 \<and> height = 0 then s
      else s\<lparr>state := (state s)\<lparr>originalWidth := width, originalHeight := height,
                                originalPageX := pgX, originalPageY := pgY\<rparr>\<rparr>)"

subsection \<open>Stand-ins for the helpers\<close>

text \<open>
  Modelled from the spec: \<open>applyPanBoundariesToOffset\<close> (\<open>./helper/applyPanBoundariesToOffset\<close>)
  is not among the sources. The spec asks that pan boundaries be enforced; this stand-in
  keeps the offset within the room that the scaled content leaves beyond the padded
  container, and pins it to the centre when there is none. It serves to evaluate the
  operations at concrete inputs; the general theorems hold for every helper.
\<close>

definition clampPanOffset :: "real \<Rightarrow> real \<Rightarrow> real \<Rightarrow> real \<Rightarrow> real \<Rightarrow> real" where
  "clampPanOffset offset containerSize contentSize scl padding =
     (let room = max 0 ((contentSize * scl - (containerSize - 2 * padding)) / 2 / scl)
      in max (- room) (min room offset))"

text \<open>
  Modelled from the spec: the gesture helpers of \<open>./helper\<close> are not among the sources
  either. The stand-ins report a touch distance \<open>d\<close>, take the event's page position for
  the gesture centre and keep the offset when the scale changes.
\<close>

definition exampleHelpers :: "real \<Rightarrow> helpers" where
  "exampleHelpers d =
     \<lparr>calcGestureCenterPoint = (\<lambda>e g. Some \<lparr>x = pageX e, y = pageY e\<rparr>),
      calcGestureTouchDistance = (\<lambda>e g. Some d),
      calcNewScaledOffsetForZoomCentering = (\<lambda>oldOffset size oldScale newScale center. oldOffset),
      applyPanBoundariesToOffset = clampPanOffset\<rparr>"

definition exampleView :: "ReactNativeZoomableViewProps \<Rightarrow> ReactNativeZoomableView" where
  "exampleView p = measured 200 100 0 0 (construct (exampleHelpers 150) p)"

definition exampleEvent :: GestureResponderEvent where
  "exampleEvent = \<lparr>pageX = 100, pageY = 50\<rparr>"

definition exampleGesture :: "nat \<Rightarrow> real \<Rightarrow> real \<Rightarrow> PanResponderGestureState" where
  "exampleGesture n ddx ddy =
     \<lparr>numberActiveTouches = n, dx = ddx, dy = ddy, moveX = 100 + ddx, moveY = 50 + ddy,
      vx = 1, vy = 2\<rparr>"

definition pinchView :: "ReactNativeZoomableViewProps \<Rightarrow> ReactNativeZoomableView" where
  "pinchView p = (exampleView p)\<lparr>gestureType := Some Pinch, lastGestureTouchDistance := Some 120\<rparr>"

definition shiftingView :: ReactNativeZoomableView where
  "shiftingView = (exampleView defaultProps)\<lparr>gestureType := Some Shift\<rparr>"

definition invertedLimitsProps :: ReactNativeZoomableViewProps where
  "invertedLimitsProps = defaultProps\<lparr>maxZoom := Some 1, minZoom := Some 2\<rparr>"

definition vetoProps :: ReactNativeZoomableViewProps where
  "vetoProps = defaultProps\<lparr>onPanResponderMove := Some (\<lambda>e g z. True)\<rparr>"

subsection \<open>Vocabulary of the properties\<close>

text \<open>
  The boundary-corrected value that \<open>__setOffset\<close> computes for an offset (its
  \<open>boundOffset\<close>), and what it means for the stored offset of an axis to lie within the
  pan boundaries: the correction leaves it as it is.
\<close>

definition panBoundOffset :: "helpers \<Rightarrow> axis \<Rightarrow> real \<Rightarrow> ReactNativeZoomableView \<Rightarrow> real" where
  "panBoundOffset h ax offset s =
     (let containerSize =
            (if ax = AxisX then originalWidth (state s) else originalHeight (state s));
          contentSize =
            (if ax = AxisX then orElse (contentWidth (props s)) (originalWidth (state s))
             else orElse (contentHeight (props s)) (originalHeight (state s)))
      in case panBoundaryPadding (props s) of
           None \<Rightarrow> offset
         | Some padding \<Rightarrow>
             if contentSize \<noteq> 0 \<and> containerSize \<noteq> 0
             then applyPanBoundariesToOffset h offset containerSize contentSize (zoomLevel s) padding
             else offset)"

definition withinPanBoundaries :: "helpers \<Rightarrow> axis \<Rightarrow> ReactNativeZoomableView \<Rightarrow> bool" where
  "withinPanBoundaries h ax s =
     (panBoundOffset h ax (offsetValue (offsets s ax)) s = offsetValue (offsets s ax))"

text \<open>
  The condition under which \<open>zoomTo\<close> is said to refuse: zooming is disabled, or
  \<open>maxZoom\<close> is set and exceeded, or \<open>minZoom\<close> is set and undercut.
\<close>

definition zoomRefused :: "real \<Rightarrow> ReactNativeZoomableView \<Rightarrow> bool" where
  "zoomRefused newZoomLevel s =
     (\<not> zoomEnabled (props s)
      \<or> (case maxZoom (props s) of None \<Rightarrow> False | Some mx \<Rightarrow> mx \<noteq> 0 \<and> newZoomLevel > mx)
      \<or> (case minZoom (props s) of None \<Rightarrow> False | Some mn \<Rightarrow> mn \<noteq> 0 \<and> newZoomLevel < mn))"

fun isPanMomentumDecay :: "animCall \<Rightarrow> bool" where
  "isPanMomentumDecay (PanMomentumDecayAnimStart a b) = True"
| "isPanMomentumDecay _ = False"

section \<open>What the operations leave unchanged\<close>

lemma setOffset_frame [simp]:
  "props (setOffset h ax v s) = props s"
  "state (setOffset h ax v s) = state s"
  "zoomLevel (setOffset h ax v s) = zoomLevel s"
  "gestureType (setOffset h ax v s) = gestureType s"
  "gestureStarted (setOffset h ax v s) = gestureStarted s"
  "zoomAnim (setOffset h ax v s) = zoomAnim s"
  "panAnim (setOffset h ax v s) = panAnim s"
  by (simp_all add: setOffset_def Let_def)

lemma panAnim_setValue_frame [simp]:
  "props (panAnim_setValue h v s) = props s"
  "state (panAnim_setValue h v s) = state s"
  "zoomLevel (panAnim_setValue h v s) = zoomLevel s"
  "gestureType (panAnim_setValue h v s) = gestureType s"
  by (simp_all add: panAnim_setValue_def Let_def)

lemma panBoundOffset_setOffset [simp]:
  "panBoundOffset h ax v (setOffset h' ax' w s) = panBoundOffset h ax v s"
  by (simp add: panBoundOffset_def Let_def split: option.splits)

lemma zoomTo_frame [simp]:
  "props (snd (zoomTo n c s)) = props s"
  "zoomLevel (snd (zoomTo n c s)) = zoomLevel s"
  "offsets (snd (zoomTo n c s)) = offsets s"
  "gestureType (snd (zoomTo n c s)) = gestureType s"
  "zoomAnim (snd (zoomTo n c s)) = zoomAnim s"
  "panAnim (snd (zoomTo n c s)) = panAnim s"
  "filter isPanMomentumDecay (animCalls (snd (zoomTo n c s))) =
     filter isPanMomentumDecay (animCalls s)"
  by (simp_all add: zoomTo_def Let_def split: option.splits)

lemma handleDoubleTap_frame [simp]:
  "props (handleDoubleTap e s) = props s"
  "zoomLevel (handleDoubleTap e s) = zoomLevel s"
  "offsets (handleDoubleTap e s) = offsets s"
  "gestureType (handleDoubleTap e s) = gestureType s"
  "zoomAnim (handleDoubleTap e s) = zoomAnim s"
  "panAnim (handleDoubleTap e s) = panAnim s"
  "filter isPanMomentumDecay (animCalls (handleDoubleTap e s)) =
     filter isPanMomentumDecay (animCalls s)"
  by (simp_all add: handleDoubleTap_def Let_def split: option.splits)

lemma addTouch_frame [simp]:
  "props (addTouch t s) = props s"
  "zoomLevel (addTouch t s) = zoomLevel s"
  "offsets (addTouch t s) = offsets s"
  "gestureType (addTouch t s) = gestureType s"
  "zoomAnim (addTouch t s) = zoomAnim s"
  "panAnim (addTouch t s) = panAnim s"
  "animCalls (addTouch t s) = animCalls s"
  by (simp_all add: addTouch_def)

lemma resolveAndHandleTap_frame [simp]:
  "props (resolveAndHandleTap now e s) = props s"
  "zoomLevel (resolveAndHandleTap now e s) = zoomLevel s"
  "offsets (resolveAndHandleTap now e s) = offsets s"
  "gestureType (resolveAndHandleTap now e s) = gestureType s"
  "zoomAnim (resolveAndHandleTap now e s) = zoomAnim s"
  "panAnim (resolveAndHandleTap now e s) = panAnim s"
  "filter isPanMomentumDecay (animCalls (resolveAndHandleTap now e s)) =
     filter isPanMomentumDecay (animCalls s)"
  by (simp_all add: resolveAndHandleTap_def Let_def split: option.splits)

lemma handlePanResponderEnd_frame [simp]:
  "zoomLevel (handlePanResponderEnd now e g s) = zoomLevel s"
  "offsets (handlePanResponderEnd now e g s) = offsets s"
  "zoomAnim (handlePanResponderEnd now e g s) = zoomAnim s"
  "panAnim (handlePanResponderEnd now e g s) = panAnim s"
  "gestureStarted (handlePanResponderEnd now e g s) = False"
  by (simp_all add: handlePanResponderEnd_def dropPin_def Let_def)

lemma zoomAnim_setValue_gestureType [simp]:
  "gestureType (zoomAnim_setValue v s) = gestureType s"
  by (simp add: zoomAnim_setValue_def)

lemma raisePin_frame [simp]:
  "props (raisePin s) = props s"
  "state (raisePin s) = state s"
  "lastGestureTouchDistance (raisePin s) = lastGestureTouchDistance s"
  "lastGestureCenterPosition (raisePin s) = lastGestureCenterPosition s"
  "gestureType (raisePin s) = gestureType s"
  "zoomLevel (raisePin s) = zoomLevel s"
  "offsets (raisePin s) = offsets s"
  "zoomAnim (raisePin s) = zoomAnim s"
  "panAnim (raisePin s) = panAnim s"
  by (simp_all add: raisePin_def)

lemma handlePanResponderGrant_frame [simp]:
  "props (handlePanResponderGrant s) = props s"
  "state (handlePanResponderGrant s) = state s"
  "lastGestureTouchDistance (handlePanResponderGrant s) = lastGestureTouchDistance s"
  "lastGestureCenterPosition (handlePanResponderGrant s) = lastGestureCenterPosition s"
  "gestureType (handlePanResponderGrant s) = gestureType s"
  "zoomLevel (handlePanResponderGrant s) = zoomLevel s"
  "offsets (handlePanResponderGrant s) = offsets s"
  "zoomAnim (handlePanResponderGrant s) = zoomAnim s"
  "panAnim (handlePanResponderGrant s) = panAnim s"
  by (simp_all add: handlePanResponderGrant_def Let_def)

lemma handlePinching_gestureType [simp]:
  "gestureType (handlePinching h e g s) = gestureType s"
  by (simp add: handlePinching_def Let_def calcOffsetShiftSinceLastGestureState_def
      split: option.splits prod.splits)

lemma handleShifting_gestureType [simp]:
  "gestureType (handleShifting h g s) = gestureType s"
  by (simp add: handleShifting_def setNewOffsetPosition_def Let_def
      calcOffsetShiftSinceLastGestureState_def split: option.splits prod.splits)

section \<open>The example view\<close>

lemma setOffset_unmeasured:
  assumes "originalWidth (state s) = 0" and "originalHeight (state s) = 0"
  shows "setOffset h ax v s = s\<lparr>offsets := (offsets s)(ax := (offsets s ax)\<lparr>offsetValue := v\<rparr>)\<rparr>"
proof (cases "panBoundaryPadding (props s)")
  case None
  then show ?thesis by (simp add: setOffset_def Let_def)
next
  case (Some padding)
  with assms show ?thesis by (simp add: setOffset_def Let_def)
qed

lemma construct_simps:
  "props (construct h p) = p"
  "state (construct h p) = initialState"
  "zoomLevel (construct h p) = orElse (initialZoom p) 1"
  "gestureType (construct h p) = None"
  "gestureStarted (construct h p) = False"
  "lastGestureTouchDistance (construct h p) = Some 150"
  "lastGestureCenterPosition (construct h p) = None"
  "animCalls (construct h p) = []"
  "zoomAnim (construct h p) = orElse (initialZoom p) 1"
  "offsets (construct h p) AxisX =
     \<lparr>offsetValue = (case initialOffsetX p of None \<Rightarrow> 0 | Some v \<Rightarrow> v),
      boundaryCrossedAnimInEffect = False\<rparr>"
  "offsets (construct h p) AxisY =
     \<lparr>offsetValue = (case initialOffsetY p of None \<Rightarrow> 0 | Some v \<Rightarrow> v),
      boundaryCrossedAnimInEffect = False\<rparr>"
  "panAnim (construct h p) =
     \<lparr>x = (case initialOffsetX p of None \<Rightarrow> 0 | Some v \<Rightarrow> v),
      y = (case initialOffsetY p of None \<Rightarrow> 0 | Some v \<Rightarrow> v)\<rparr>"
  by (simp_all add: construct_def Let_def orElse_def setOffset_unmeasured initialState_def
      offsetX_def offsetY_def split: option.splits)

lemma exampleView_simps:
  "props (exampleView p) = p"
  "state (exampleView p) = \<lparr>originalWidth = 200, originalHeight = 100, originalPageX = 0,
      originalPageY = 0, stateTouches = []\<rparr>"
  "zoomLevel (exampleView p) = orElse (initialZoom p) 1"
  "gestureType (exampleView p) = None"
  "gestureStarted (exampleView p) = False"
  "lastGestureTouchDistance (exampleView p) = Some 150"
  "lastGestureCenterPosition (exampleView p) = None"
  "animCalls (exampleView p) = []"
  "zoomAnim (exampleView p) = orElse (initialZoom p) 1"
  "offsets (exampleView p) AxisX =
     \<lparr>offsetValue = (case initialOffsetX p of None \<Rightarrow> 0 | Some v \<Rightarrow> v),
      boundaryCrossedAnimInEffect = False\<rparr>"
  "offsets (exampleView p) AxisY =
     \<lparr>offsetValue = (case initialOffsetY p of None \<Rightarrow> 0 | Some v \<Rightarrow> v),
      boundaryCrossedAnimInEffect = False\<rparr>"
  "panAnim (exampleView p) =
     \<lparr>x = (case initialOffsetX p of None \<Rightarrow> 0 | Some v \<Rightarrow> v),
      y = (case initialOffsetY p of None \<Rightarrow> 0 | Some v \<Rightarrow> v)\<rparr>"
  by (simp_all add: exampleView_def measured_def construct_simps initialState_def)

lemma pinchView_simps:
  "props (pinchView p) = p"
  "state (pinchView p) = \<lparr>originalWidth = 200, originalHeight = 100, originalPageX = 0,
      originalPageY = 0, stateTouches = []\<rparr>"
  "zoomLevel (pinchView p) = orElse (initialZoom p) 1"
  "gestureType (pinchView p) = Some Pinch"
  "lastGestureTouchDistance (pinchView p) = Some 120"
  "gestureStarted (pinchView p) = False"
  by (simp_all add: pinchView_def exampleView_simps)





section \<open>Pinching\<close>

lemma respectZoomLimits_bounds:
  assumes "mn \<le> mx"
  shows "mn \<le> respectZoomLimits (Some mx) (Some mn) v"
    and "respectZoomLimits (Some mx) (Some mn) v \<le> mx"
  using assms by (simp_all add: respectZoomLimits_def Let_def)

lemma handlePinching_zoomLevel_cases:
  "zoomLevel (handlePinching h e g s) = zoomLevel s \<or>
   (\<exists>v. zoomLevel (handlePinching h e g s) =
          respectZoomLimits (maxZoom (props s)) (minZoom (props s)) v)"
  by (auto simp: handlePinching_def Let_def zoomAnim_setValue_def
      calcOffsetShiftSinceLastGestureState_def split: option.splits prod.splits)

lemma handlePinching_stored_zoomLevel:
  assumes "zoomEnabled (props s)"
    and "\<not> vetoes (onZoomBefore (props s)) (Some e) (Some g) s"
    and "calcGestureTouchDistance h e g = Some d" and "d \<noteq> 0"
    and "lastGestureTouchDistance s = Some dLast" and "dLast \<noteq> 0"
    and "(if d / dLast < 1 then pinchToZoomOutSensitivity (props s)
          else pinchToZoomInSensitivity (props s)) = Some sens"
    and "calcGestureCenterPoint h e g = Some c"
    and "originalHeight (state s) \<noteq> 0" and "originalWidth (state s) \<noteq> 0"
  shows "zoomLevel (handlePinching h e g s) =
      respectZoomLimits (maxZoom (props s)) (minZoom (props s))
        (zoomLevel s * (1 + (d / dLast - 1) * (1 - (sens * 9) / 100)))"
  using assms
  by (auto simp: handlePinching_def Let_def zoomAnim_setValue_def truthy_def
      calcOffsetShiftSinceLastGestureState_def split: option.splits prod.splits if_splits)

lemma examplePinch:
  assumes "zoomEnabled p" and "onZoomBefore p = None" and "d \<noteq> 0"
    and "(if d / 120 < 1 then pinchToZoomOutSensitivity p else pinchToZoomInSensitivity p) = Some sens"
  shows "zoomLevel (handlePinching (exampleHelpers d) exampleEvent (exampleGesture 2 0 0) (pinchView p)) =
      respectZoomLimits (maxZoom p) (minZoom p)
        (orElse (initialZoom p) 1 * (1 + (d / 120 - 1) * (1 - (sens * 9) / 100)))"
  using handlePinching_stored_zoomLevel [of "pinchView p" exampleEvent "exampleGesture 2 0 0"
      "exampleHelpers d" d 120 sens "\<lparr>x = 100, y = 50\<rparr>"] assms
  by (simp add: pinchView_simps vetoes_def exampleHelpers_def exampleEvent_def cong: if_cong)

text \<open>
  C1, as amended. With \<open>maxZoom\<close> and \<open>minZoom\<close> set and \<open>minZoom \<le> maxZoom\<close>, a pinch
  step leaves the zoom level as it was (an early return) or stores a level between
  \<open>minZoom\<close> and \<open>maxZoom\<close>. When the step gets past its early returns, a computed level
  above \<open>maxZoom\<close> is stored as \<open>maxZoom\<close>, one below \<open>minZoom\<close> as \<open>minZoom\<close>, and one
  between the two as it is.
\<close>

theorem handlePinching_zoomLevel_within_limits:
  assumes "maxZoom (props s) = Some mx" and "minZoom (props s) = Some mn" and "mn \<le> mx"
  shows "(zoomLevel (handlePinching h e g s) = zoomLevel s \<or>
          (mn \<le> zoomLevel (handlePinching h e g s) \<and> zoomLevel (handlePinching h e g s) \<le> mx))
       \<and> (zoomEnabled (props s)
            \<and> \<not> vetoes (onZoomBefore (props s)) (Some e) (Some g) s
            \<and> calcGestureTouchDistance h e g = Some d \<and> d \<noteq> 0
            \<and> lastGestureTouchDistance s = Some dLast \<and> dLast \<noteq> 0
            \<and> (if d / dLast < 1 then pinchToZoomOutSensitivity (props s)
                else pinchToZoomInSensitivity (props s)) = Some sens
            \<and> calcGestureCenterPoint h e g = Some c
            \<and> originalHeight (state s) \<noteq> 0 \<and> originalWidth (state s) \<noteq> 0 \<longrightarrow>
          (mx < zoomLevel s * (1 + (d / dLast - 1) * (1 - sens * 9 / 100)) \<longrightarrow>
             zoomLevel (handlePinching h e g s) = mx)
        \<and> (zoomLevel s * (1 + (d / dLast - 1) * (1 - sens * 9 / 100)) < mn \<longrightarrow>
             zoomLevel (handlePinching h e g s) = mn)
        \<and> (mn \<le> zoomLevel s * (1 + (d / dLast - 1) * (1 - sens * 9 / 100))
            \<and> zoomLevel s * (1 + (d / dLast - 1) * (1 - sens * 9 / 100)) \<le> mx \<longrightarrow>
             zoomLevel (handlePinching h e g s) =
               zoomLevel s * (1 + (d / dLast - 1) * (1 - sens * 9 / 100))))"
proof (intro conjI impI)
  show "zoomLevel (handlePinching h e g s) = zoomLevel s \<or>
        (mn \<le> zoomLevel (handlePinching h e g s) \<and> zoomLevel (handlePinching h e g s) \<le> mx)"
    using handlePinching_zoomLevel_cases [of h e g s] assms
    by (auto simp: respectZoomLimits_bounds)
next
  assume path: "zoomEnabled (props s)
      \<and> \<not> vetoes (onZoomBefore (props s)) (Some e) (Some g) s
      \<and> calcGestureTouchDistance h e g = Some d \<and> d \<noteq> 0
      \<and> lastGestureTouchDistance s = Some dLast \<and> dLast \<noteq> 0
      \<and> (if d / dLast < 1 then pinchToZoomOutSensitivity (props s)
          else pinchToZoomInSensitivity (props s)) = Some sens
      \<and> calcGestureCenterPoint h e g = Some c
      \<and> originalHeight (state s) \<noteq> 0 \<and> originalWidth (state s) \<noteq> 0"
  then have stored: "zoomLevel (handlePinching h e g s) =
      respectZoomLimits (Some mx) (Some mn)
        (zoomLevel s * (1 + (d / dLast - 1) * (1 - sens * 9 / 100)))"
    using handlePinching_stored_zoomLevel [of s e g h d dLast sens c] assms(1,2) by simp
  {
    assume "mx < zoomLevel s * (1 + (d / dLast - 1) * (1 - sens * 9 / 100))"
    then show "zoomLevel (handlePinching h e g s) = mx"
      using stored assms(3) by (simp add: respectZoomLimits_def Let_def)
  next
    assume "zoomLevel s * (1 + (d / dLast - 1) * (1 - sens * 9 / 100)) < mn"
    then show "zoomLevel (handlePinching h e g s) = mn"
      using stored assms(3) by (simp add: respectZoomLimits_def Let_def)
  next
    assume "mn \<le> zoomLevel s * (1 + (d / dLast - 1) * (1 - sens * 9 / 100))
        \<and> zoomLevel s * (1 + (d / dLast - 1) * (1 - sens * 9 / 100)) \<le> mx"
    then show "zoomLevel (handlePinching h e g s) =
        zoomLevel s * (1 + (d / dLast - 1) * (1 - sens * 9 / 100))"
      using stored by (simp add: respectZoomLimits_def Let_def)
  }
qed

theorem handlePinching_zoomLevel_within_limits_witness:
  "maxZoom (props (pinchView defaultProps)) = Some (3 / 2)
   \<and> minZoom (props (pinchView defaultProps)) = Some (1 / 2)
   \<and> zoomLevel (pinchView defaultProps) = 1
   \<and> zoomLevel (handlePinching (exampleHelpers 240) exampleEvent (exampleGesture 2 0 0)
        (pinchView defaultProps)) = 3 / 2
   \<and> zoomLevel (handlePinching (exampleHelpers 12) exampleEvent (exampleGesture 2 0 0)
        (pinchView defaultProps)) = 1 / 2
   \<and> zoomLevel (handlePinching (exampleHelpers 132) exampleEvent (exampleGesture 2 0 0)
        (pinchView defaultProps)) = 1091 / 1000"
proof -
  have mx: "maxZoom (props (pinchView defaultProps)) = Some (3 / 2)"
    by (simp add: pinchView_simps defaultProps_def)
  have mn: "minZoom (props (pinchView defaultProps)) = Some (1 / 2)"
    by (simp add: pinchView_simps defaultProps_def)
  have le: "(1 / 2 :: real) \<le> 3 / 2"
    by simp
  have z: "zoomLevel (pinchView defaultProps) = 1"
    by (simp add: pinchView_simps defaultProps_def orElse_def)
  have above: "zoomLevel (handlePinching (exampleHelpers 240) exampleEvent (exampleGesture 2 0 0)
        (pinchView defaultProps)) = 3 / 2"
    using handlePinching_zoomLevel_within_limits [OF mx mn le,
        where h = "exampleHelpers 240" and e = exampleEvent and g = "exampleGesture 2 0 0"
          and d = 240 and dLast = 120 and sens = 1 and c = "\<lparr>x = 100, y = 50\<rparr>"]
    by (simp add: z pinchView_simps(2,5) vetoes_def exampleHelpers_def exampleEvent_def)
       (simp add: pinchView_simps defaultProps_def)
  have below: "zoomLevel (handlePinching (exampleHelpers 12) exampleEvent (exampleGesture 2 0 0)
        (pinchView defaultProps)) = 1 / 2"
    using handlePinching_zoomLevel_within_limits [OF mx mn le,
        where h = "exampleHelpers 12" and e = exampleEvent and g = "exampleGesture 2 0 0"
          and d = 12 and dLast = 120 and sens = 1 and c = "\<lparr>x = 100, y = 50\<rparr>"]
    by (simp add: z pinchView_simps(2,5) vetoes_def exampleHelpers_def exampleEvent_def)
       (simp add: pinchView_simps defaultProps_def)
  have between: "zoomLevel (handlePinching (exampleHelpers 132) exampleEvent (exampleGesture 2 0 0)
        (pinchView defaultProps)) = 1091 / 1000"
    using handlePinching_zoomLevel_within_limits [OF mx mn le,
        where h = "exampleHelpers 132" and e = exampleEvent and g = "exampleGesture 2 0 0"
          and d = 132 and dLast = 120 and sens = 1 and c = "\<lparr>x = 100, y = 50\<rparr>"]
    by (simp add: z pinchView_simps(2,5) vetoes_def exampleHelpers_def exampleEvent_def)
       (simp add: pinchView_simps defaultProps_def)
  from mx mn z above below between show ?thesis by simp
qed

text \<open>
  C1 as stated fails when the limits are inverted. With \<open>maxZoom = 1\<close>, \<open>minZoom = 2\<close>,
  zoom level 1 and the touch distance growing from 120 to 240, the computed level 1.91
  is first cut to \<open>maxZoom\<close> and then raised to \<open>minZoom\<close>: the stored level is 2, which
  is neither the old level nor at most \<open>maxZoom\<close>.
\<close>

theorem handlePinching_inverted_limits_counterexample:
  "maxZoom (props (pinchView invertedLimitsProps)) = Some 1
   \<and> minZoom (props (pinchView invertedLimitsProps)) = Some 2
   \<and> zoomLevel (pinchView invertedLimitsProps) = 1
   \<and> zoomLevel (handlePinching (exampleHelpers 240) exampleEvent (exampleGesture 2 0 0)
        (pinchView invertedLimitsProps)) = 2
   \<and> \<not> (zoomLevel (handlePinching (exampleHelpers 240) exampleEvent (exampleGesture 2 0 0)
            (pinchView invertedLimitsProps)) = zoomLevel (pinchView invertedLimitsProps)
         \<or> (2 \<le> zoomLevel (handlePinching (exampleHelpers 240) exampleEvent
                    (exampleGesture 2 0 0) (pinchView invertedLimitsProps))
            \<and> zoomLevel (handlePinching (exampleHelpers 240) exampleEvent
                    (exampleGesture 2 0 0) (pinchView invertedLimitsProps)) \<le> 1))"
proof -
  have "zoomLevel (handlePinching (exampleHelpers 240) exampleEvent (exampleGesture 2 0 0)
          (pinchView invertedLimitsProps)) = 2"
    using examplePinch [of invertedLimitsProps 240 1]
    by (simp add: invertedLimitsProps_def defaultProps_def orElse_def respectZoomLimits_def)
  then show ?thesis
    by (simp add: pinchView_simps invertedLimitsProps_def defaultProps_def orElse_def)
qed

text \<open>
  C9. A pinch step that gets past its early returns stores the limited value of
  \<open>zoomLevel * (1 + (d / dLast - 1) * (1 - 9 * s / 100))\<close>, where \<open>d\<close> is the touch
  distance, \<open>dLast\<close> the previous one and \<open>s\<close> the zoom-out sensitivity when
  \<open>d / dLast < 1\<close> and the zoom-in sensitivity otherwise; with \<open>s = 0\<close> that value is
  \<open>zoomLevel * (d / dLast)\<close>.
\<close>

theorem handlePinching_zoom_formula:
  assumes "zoomEnabled (props s)"
    and "\<not> vetoes (onZoomBefore (props s)) (Some e) (Some g) s"
    and "calcGestureTouchDistance h e g = Some d" and "d \<noteq> 0"
    and "lastGestureTouchDistance s = Some dLast" and "dLast \<noteq> 0"
    and "(if d / dLast < 1 then pinchToZoomOutSensitivity (props s)
          else pinchToZoomInSensitivity (props s)) = Some sens"
    and "calcGestureCenterPoint h e g = Some c"
    and "originalHeight (state s) \<noteq> 0" and "originalWidth (state s) \<noteq> 0"
  shows "zoomLevel (handlePinching h e g s) =
           respectZoomLimits (maxZoom (props s)) (minZoom (props s))
             (zoomLevel s * (1 + (d / dLast - 1) * (1 - 9 * sens / 100)))
       \<and> (sens = 0 \<longrightarrow> zoomLevel (handlePinching h e g s) =
             respectZoomLimits (maxZoom (props s)) (minZoom (props s)) (zoomLevel s * (d / dLast)))"
proof -
  have stored: "zoomLevel (handlePinching h e g s) =
      respectZoomLimits (maxZoom (props s)) (minZoom (props s))
        (zoomLevel s * (1 + (d / dLast - 1) * (1 - (sens * 9) / 100)))"
    using assms by (rule handlePinching_stored_zoomLevel)
  have comm: "sens * 9 / 100 = 9 * sens / 100"
    by simp
  have free: "zoomLevel s * (1 + (d / dLast - 1) * (1 - 9 * sens / 100)) = zoomLevel s * (d / dLast)"
    if "sens = 0"
    using that by simp
  show ?thesis
    using stored free unfolding comm by metis
qed

theorem handlePinching_zoom_formula_witness:
  "zoomLevel (handlePinching (exampleHelpers 132) exampleEvent (exampleGesture 2 0 0)
      (pinchView defaultProps)) = 1091 / 1000
   \<and> zoomLevel (handlePinching (exampleHelpers 132) exampleEvent (exampleGesture 2 0 0)
      (pinchView (defaultProps\<lparr>pinchToZoomInSensitivity := Some 0\<rparr>))) = 11 / 10"
proof -
  have a: "zoomLevel (handlePinching (exampleHelpers 132) exampleEvent (exampleGesture 2 0 0)
      (pinchView defaultProps)) = 1091 / 1000"
    using handlePinching_zoom_formula [of "pinchView defaultProps" exampleEvent
        "exampleGesture 2 0 0" "exampleHelpers 132" 132 120 1 "\<lparr>x = 100, y = 50\<rparr>"]
    by (simp add: pinchView_simps defaultProps_def vetoes_def exampleHelpers_def exampleEvent_def
        orElse_def respectZoomLimits_def)
  have b: "zoomLevel (handlePinching (exampleHelpers 132) exampleEvent (exampleGesture 2 0 0)
      (pinchView (defaultProps\<lparr>pinchToZoomInSensitivity := Some 0\<rparr>))) = 11 / 10"
    using handlePinching_zoom_formula [of "pinchView (defaultProps\<lparr>pinchToZoomInSensitivity := Some 0\<rparr>)"
        exampleEvent "exampleGesture 2 0 0" "exampleHelpers 132" 132 120 0 "\<lparr>x = 100, y = 50\<rparr>"]
    by (simp add: pinchView_simps defaultProps_def vetoes_def exampleHelpers_def exampleEvent_def
        orElse_def respectZoomLimits_def)
  from a b show ?thesis by simp
qed

section \<open>Storing an offset\<close>

lemma example_panBoundOffset:
  "panBoundOffset (exampleHelpers d) AxisX 30 (exampleView defaultProps) = 0"
  "panBoundOffset (exampleHelpers d) AxisX 30 shiftingView = 0"
  by (simp_all add: panBoundOffset_def Let_def shiftingView_def exampleView_simps defaultProps_def
      exampleHelpers_def clampPanOffset_def orElse_def)

lemma toFixed_example: "toFixed 3 0 \<noteq> toFixed 3 30"
  by (simp add: toFixed_def)

text \<open>
  C2, as amended. With \<open>bindToBorders\<close> set, an assignment made while no gesture is in
  progress and no boundary animation is in effect on the axis either stores the offset,
  which then agrees with its boundary-corrected value (exactly, or in its first three
  decimals), or stores nothing and starts a boundary animation towards the corrected
  value. During a gesture, or while the boundary animation is in effect, the offset is
  stored as given.
\<close>

theorem setOffset_bindToBorders:
  assumes "bindToBorders (props s)"
  shows "(gestureType s = None \<and> \<not> boundaryCrossedAnimInEffect (offsets s ax) \<longrightarrow>
           (if panBoundOffset h ax offset s \<noteq> offset
               \<and> toFixed 3 (panBoundOffset h ax offset s) \<noteq> toFixed 3 offset
            then offsetValue (offsets (setOffset h ax offset s) ax) = offsetValue (offsets s ax)
               \<and> boundaryCrossedAnimInEffect (offsets (setOffset h ax offset s) ax)
               \<and> animCalls (setOffset h ax offset s) =
                   animCalls s @ [BoundaryCrossedAnimStart ax (panBoundOffset h ax offset s)]
            else offsetValue (offsets (setOffset h ax offset s) ax) = offset
               \<and> (panBoundOffset h ax offset (setOffset h ax offset s) = offset
                  \<or> toFixed 3 (panBoundOffset h ax offset (setOffset h ax offset s)) =
                      toFixed 3 offset)))
       \<and> (gestureType s \<noteq> None \<or> boundaryCrossedAnimInEffect (offsets s ax) \<longrightarrow>
            offsetValue (offsets (setOffset h ax offset s) ax) = offset)"
proof -
  have bound: "panBoundOffset h ax offset (setOffset h ax offset s) = panBoundOffset h ax offset s"
    by simp
  have unfolded: "setOffset h ax offset s =
      (if gestureType s = None \<and> \<not> boundaryCrossedAnimInEffect (offsets s ax)
          \<and> panBoundOffset h ax offset s \<noteq> offset
          \<and> toFixed 3 (panBoundOffset h ax offset s) \<noteq> toFixed 3 offset
       then s\<lparr>offsets := (offsets s)(ax := (offsets s ax)\<lparr>boundaryCrossedAnimInEffect := True\<rparr>),
              animCalls := animCalls s @ [BoundaryCrossedAnimStart ax (panBoundOffset h ax offset s)]\<rparr>
       else s\<lparr>offsets := (offsets s)(ax := (offsets s ax)\<lparr>offsetValue := offset\<rparr>)\<rparr>)"
    using assms
    by (cases "panBoundaryPadding (props s)") (simp_all add: setOffset_def panBoundOffset_def Let_def)
  show ?thesis
    unfolding bound by (subst unfolded)+ auto
qed

theorem setOffset_bindToBorders_witness:
  "bindToBorders (props (exampleView defaultProps))
   \<and> offsetValue (offsets (setOffset (exampleHelpers 150) AxisX 30 (exampleView defaultProps)) AxisX) = 0
   \<and> animCalls (setOffset (exampleHelpers 150) AxisX 30 (exampleView defaultProps)) =
       [BoundaryCrossedAnimStart AxisX 0]
   \<and> offsetValue (offsets (setOffset (exampleHelpers 150) AxisX 30 shiftingView) AxisX) = 30"
proof -
  have b: "bindToBorders (props (exampleView defaultProps))"
    by (simp add: exampleView_simps defaultProps_def)
  have b': "bindToBorders (props shiftingView)"
    by (simp add: shiftingView_def exampleView_simps defaultProps_def)
  have idle: "gestureType (exampleView defaultProps) = None"
    "\<not> boundaryCrossedAnimInEffect (offsets (exampleView defaultProps) AxisX)"
    "offsetValue (offsets (exampleView defaultProps) AxisX) = 0"
    "animCalls (exampleView defaultProps) = []"
    by (simp_all add: exampleView_simps defaultProps_def)
  have busy: "gestureType shiftingView = Some Shift"
    by (simp add: shiftingView_def)
  show ?thesis
    using b toFixed_example
      setOffset_bindToBorders [OF b, of AxisX "exampleHelpers 150" 30]
      setOffset_bindToBorders [OF b', of AxisX "exampleHelpers 150" 30]
    by (simp add: example_panBoundOffset idle busy)
qed

text \<open>
  C2 as stated fails during a gesture. The view is 200 wide with content of the same
  width at zoom level 1, so the boundary-corrected value of every offset is 0; assigning
  30 to \<open>offsetX\<close> while a shift gesture is in progress stores 30.
\<close>

theorem setOffset_during_gesture_counterexample:
  "bindToBorders (props shiftingView)
   \<and> gestureType shiftingView = Some Shift
   \<and> offsetValue (offsets (setOffset (exampleHelpers 150) AxisX 30 shiftingView) AxisX) = 30
   \<and> panBoundOffset (exampleHelpers 150) AxisX 30
        (setOffset (exampleHelpers 150) AxisX 30 shiftingView) = 0
   \<and> \<not> withinPanBoundaries (exampleHelpers 150) AxisX
        (setOffset (exampleHelpers 150) AxisX 30 shiftingView)"
proof -
  have stored: "offsetValue (offsets (setOffset (exampleHelpers 150) AxisX 30 shiftingView) AxisX) = 30"
    by (simp add: setOffset_def Let_def shiftingView_def)
  show ?thesis
    by (simp add: stored withinPanBoundaries_def example_panBoundOffset)
       (simp add: shiftingView_def exampleView_simps defaultProps_def)
qed

section \<open>Programmatic zoom\<close>

text \<open>
  C3. \<open>zoomTo\<close> returns \<open>false\<close> exactly when zooming is disabled, or \<open>maxZoom\<close> is set
  and the new level exceeds it, or \<open>minZoom\<close> is set and the new level is below it; it
  then leaves the instance, and so the zoom level and the offsets, as they were. In every
  other case it returns \<open>true\<close> and starts the zoom animation towards the new level.
\<close>

theorem zoomTo_refused_iff:
  "(\<not> fst (zoomTo newZoomLevel zoomCenter s)) = zoomRefused newZoomLevel s
   \<and> (zoomRefused newZoomLevel s \<longrightarrow> snd (zoomTo newZoomLevel zoomCenter s) = s)
   \<and> (\<not> zoomRefused newZoomLevel s \<longrightarrow>
        animCalls (snd (zoomTo newZoomLevel zoomCenter s)) =
          animCalls s @ [ZoomToAnimationStart newZoomLevel])"
  by (simp add: zoomTo_def zoomRefused_def Let_def split: option.splits)

theorem zoomTo_refused_iff_witness:
  "zoomRefused 2 (exampleView defaultProps)
   \<and> \<not> fst (zoomTo 2 None (exampleView defaultProps))
   \<and> snd (zoomTo 2 None (exampleView defaultProps)) = exampleView defaultProps
   \<and> \<not> zoomRefused (5 / 4) (exampleView defaultProps)
   \<and> fst (zoomTo (5 / 4) None (exampleView defaultProps))
   \<and> animCalls (snd (zoomTo (5 / 4) None (exampleView defaultProps))) =
       [ZoomToAnimationStart (5 / 4)]"
proof -
  have r: "zoomRefused 2 (exampleView defaultProps)"
    by (simp add: zoomRefused_def exampleView_simps defaultProps_def)
  have a: "\<not> zoomRefused (5 / 4) (exampleView defaultProps)"
    by (simp add: zoomRefused_def exampleView_simps defaultProps_def)
  show ?thesis
    using r a zoomTo_refused_iff [of 2 None "exampleView defaultProps"]
      zoomTo_refused_iff [of "5 / 4" None "exampleView defaultProps"]
    by (simp add: exampleView_simps)
qed

text \<open>
  C4. The next zoom step of a double tap is nothing when \<open>maxZoom\<close> is null; it is
  \<open>initialZoom\<close> when the zoom level and \<open>maxZoom\<close> agree once both are rounded to two
  decimals; otherwise it is nothing when \<open>zoomStep\<close> is null, and else
  \<open>zoomLevel * (1 + zoomStep)\<close>, replaced by \<open>maxZoom\<close> when it exceeds \<open>maxZoom\<close>.
\<close>

theorem getNextZoomStep_cases:
  "(maxZoom (props s) = None \<longrightarrow> getNextZoomStep s = None)
   \<and> (maxZoom (props s) = Some mx \<and> toFixed 2 (zoomLevel s) = toFixed 2 mx \<longrightarrow>
        getNextZoomStep s = initialZoom (props s))
   \<and> (maxZoom (props s) = Some mx \<and> toFixed 2 (zoomLevel s) \<noteq> toFixed 2 mx
        \<and> zoomStep (props s) = None \<longrightarrow> getNextZoomStep s = None)
   \<and> (maxZoom (props s) = Some mx \<and> toFixed 2 (zoomLevel s) \<noteq> toFixed 2 mx
        \<and> zoomStep (props s) = Some st \<longrightarrow>
        getNextZoomStep s =
          Some (if zoomLevel s * (1 + st) > mx then mx else zoomLevel s * (1 + st)))"
  by (simp add: getNextZoomStep_def Let_def)

theorem getNextZoomStep_cases_witness:
  "getNextZoomStep (exampleView defaultProps) = Some (3 / 2)
   \<and> getNextZoomStep ((exampleView defaultProps)\<lparr>zoomLevel := 1499 / 1000\<rparr>) = Some 1
   \<and> getNextZoomStep ((exampleView defaultProps)\<lparr>zoomLevel := 6 / 5\<rparr>) = Some (3 / 2)
   \<and> getNextZoomStep (exampleView (defaultProps\<lparr>maxZoom := None\<rparr>)) = None"
proof -
  have r: "toFixed 2 1 \<noteq> toFixed 2 (3 / 2)" "toFixed 2 (1499 / 1000) = toFixed 2 (3 / 2)"
    "toFixed 2 (6 / 5) \<noteq> toFixed 2 (3 / 2)"
    by (simp_all add: toFixed_def)
  show ?thesis
    using r getNextZoomStep_cases [of "exampleView defaultProps" "3 / 2" "1 / 2"]
      getNextZoomStep_cases [of "(exampleView defaultProps)\<lparr>zoomLevel := 1499 / 1000\<rparr>" "3 / 2" "1 / 2"]
      getNextZoomStep_cases [of "(exampleView defaultProps)\<lparr>zoomLevel := 6 / 5\<rparr>" "3 / 2" "1 / 2"]
      getNextZoomStep_cases [of "exampleView (defaultProps\<lparr>maxZoom := None\<rparr>)" "3 / 2" "1 / 2"]
    by (simp add: exampleView_simps defaultProps_def orElse_def)
qed

text \<open>
  C10. For a change other than zero \<open>zoomBy\<close> is \<open>zoomTo\<close> at the zoom level plus the
  change, in result and in state; for the change 0 or null it is \<open>zoomTo\<close> at the zoom
  level plus \<open>zoomStep\<close>, and plus 0 when \<open>zoomStep\<close> is unset.
\<close>

theorem zoomBy_zoomTo:
  "(c \<noteq> 0 \<longrightarrow> zoomBy (Some c) s = zoomTo (zoomLevel s + c) None s)
   \<and> zoomBy (Some 0) s =
       zoomTo (zoomLevel s + (case zoomStep (props s) of None \<Rightarrow> 0 | Some st \<Rightarrow> st)) None s
   \<and> zoomBy None s =
       zoomTo (zoomLevel s + (case zoomStep (props s) of None \<Rightarrow> 0 | Some st \<Rightarrow> st)) None s"
  by (simp add: zoomBy_def orElse_def Let_def split: option.splits)

theorem zoomBy_zoomTo_witness:
  "zoomBy (Some (1 / 4)) (exampleView defaultProps) = zoomTo (5 / 4) None (exampleView defaultProps)
   \<and> zoomBy (Some 0) (exampleView defaultProps) = zoomTo (3 / 2) None (exampleView defaultProps)
   \<and> zoomBy None (exampleView defaultProps) = zoomTo (3 / 2) None (exampleView defaultProps)"
  using zoomBy_zoomTo [of "1 / 4" "exampleView defaultProps"]
  by (simp add: exampleView_simps defaultProps_def orElse_def)

section \<open>The end of a gesture\<close>

text \<open>
  C6. The end of a gesture starts exactly one pan momentum animation, with the velocity
  \<open>(vx / zoomLevel, vy / zoomLevel)\<close> of the gesture state, unless \<open>disableMomentum\<close> is
  set, or \<open>panEnabled\<close> is set, the gesture was a shift, \<open>disablePanOnInitialZoom\<close> is
  set and the zoom level is \<open>initialZoom\<close>; then it starts none.
\<close>

theorem handlePanResponderEnd_momentum:
  "filter isPanMomentumDecay (animCalls (handlePanResponderEnd now e g s)) =
     filter isPanMomentumDecay (animCalls s) @
     (if disableMomentum (props s)
         \<or> (panEnabled (props s) \<and> gestureType s = Some Shift
            \<and> disablePanOnInitialZoom (props s) \<and> Some (zoomLevel s) = initialZoom (props s))
      then []
      else [PanMomentumDecayAnimStart (vx g / zoomLevel s) (vy g / zoomLevel s)])"
  by (simp add: handlePanResponderEnd_def dropPin_def Let_def)

theorem handlePanResponderEnd_momentum_witness:
  "filter isPanMomentumDecay (animCalls (handlePanResponderEnd 1000 exampleEvent
      (exampleGesture 1 30 0) (shiftingView\<lparr>zoomLevel := 2\<rparr>))) =
     [PanMomentumDecayAnimStart (1 / 2) 1]
   \<and> filter isPanMomentumDecay (animCalls (handlePanResponderEnd 1000 exampleEvent
      (exampleGesture 1 30 0)
      ((exampleView (defaultProps\<lparr>disablePanOnInitialZoom := True\<rparr>))\<lparr>gestureType := Some Shift\<rparr>))) = []"
  using handlePanResponderEnd_momentum [of 1000 exampleEvent "exampleGesture 1 30 0"
      "shiftingView\<lparr>zoomLevel := 2\<rparr>"]
    handlePanResponderEnd_momentum [of 1000 exampleEvent "exampleGesture 1 30 0"
      "(exampleView (defaultProps\<lparr>disablePanOnInitialZoom := True\<rparr>))\<lparr>gestureType := Some Shift\<rparr>"]
  by (simp add: shiftingView_def exampleView_simps defaultProps_def exampleGesture_def orElse_def)

section \<open>Rendering\<close>

text \<open>
  C7. The transform of the child view is a scale by the zoom value followed by the two
  translations by the pan value, and nothing else: no entry is a rotation or a skew.
\<close>

theorem render_transform_scale_translation:
  "render_transform s =
     [Scale (zoomAnim s), TranslateX (x (panAnim s)), TranslateY (y (panAnim s))]
   \<and> filter isRotationOrSkew (render_transform s) = []
   \<and> filter isScale (render_transform s) = [Scale (zoomAnim s)]
   \<and> filter isTranslation (render_transform s) = getTranslateTransform (panAnim s)"
  by (simp add: render_transform_def getTranslateTransform_def)

theorem render_transform_scale_translation_witness:
  "render_transform (exampleView defaultProps) = [Scale 1, TranslateX 0, TranslateY 0]"
  using render_transform_scale_translation [of "exampleView defaultProps"]
  by (simp add: exampleView_simps defaultProps_def orElse_def)

section \<open>Move events\<close>

lemma vetoView_simps:
  "vetoes (onPanResponderMove (props (exampleView vetoProps))) e g (exampleView vetoProps)"
  "vetoes (onPanResponderMove (props ((exampleView vetoProps)\<lparr>gestureStarted := True\<rparr>))) e g
     ((exampleView vetoProps)\<lparr>gestureStarted := True\<rparr>)"
  "\<not> vetoes (onPanResponderMove (props (exampleView defaultProps))) e g (exampleView defaultProps)"
  "\<not> vetoes (onPanResponderMove (props ((exampleView defaultProps)\<lparr>gestureStarted := True\<rparr>))) e g
     ((exampleView defaultProps)\<lparr>gestureStarted := True\<rparr>)"
  by (simp_all add: vetoes_def exampleView_simps vetoProps_def defaultProps_def)




text \<open>
  C8, as amended. On a move with more than two active touches, unless the
  \<open>onPanResponderMove\<close> callback of the client claims the event (the handler then returns
  \<open>false\<close> and does nothing), the handler ends a started gesture and returns \<open>true\<close>
  without pinch or pan handling. In both cases the zoom level and the offsets stay as
  they were.
\<close>

theorem handlePanResponderMove_too_many_touches:
  assumes "numberActiveTouches g > 2"
  shows "(vetoes (onPanResponderMove (props s)) (Some e) (Some g) s \<longrightarrow>
            handlePanResponderMove h now e g s = (Some False, s))
       \<and> (\<not> vetoes (onPanResponderMove (props s)) (Some e) (Some g) s \<longrightarrow>
            handlePanResponderMove h now e g s =
              (Some True, if gestureStarted s then handlePanResponderEnd now e g s else s)
          \<and> \<not> gestureStarted (snd (handlePanResponderMove h now e g s)))
       \<and> zoomLevel (snd (handlePanResponderMove h now e g s)) = zoomLevel s
       \<and> offsetX (snd (handlePanResponderMove h now e g s)) = offsetX s
       \<and> offsetY (snd (handlePanResponderMove h now e g s)) = offsetY s"
  using assms
  by (simp add: handlePanResponderMove_def offsetX_def offsetY_def)

theorem handlePanResponderMove_too_many_touches_witness:
  "2 < numberActiveTouches (exampleGesture 3 0 0)
   \<and> fst (handlePanResponderMove (exampleHelpers 150) 1000 exampleEvent (exampleGesture 3 0 0)
        ((exampleView defaultProps)\<lparr>gestureStarted := True\<rparr>)) = Some True
   \<and> \<not> gestureStarted (snd (handlePanResponderMove (exampleHelpers 150) 1000 exampleEvent
        (exampleGesture 3 0 0) ((exampleView defaultProps)\<lparr>gestureStarted := True\<rparr>)))
   \<and> zoomLevel (snd (handlePanResponderMove (exampleHelpers 150) 1000 exampleEvent
        (exampleGesture 3 0 0) ((exampleView defaultProps)\<lparr>gestureStarted := True\<rparr>))) = 1"
proof -
  have n: "2 < numberActiveTouches (exampleGesture 3 0 0)"
    by (simp add: exampleGesture_def)
  show ?thesis
    using n vetoView_simps(4) [of "Some exampleEvent" "Some (exampleGesture 3 0 0)"]
      handlePanResponderMove_too_many_touches [OF n,
        where s = "(exampleView defaultProps)\<lparr>gestureStarted := True\<rparr>" and e = exampleEvent
          and h = "exampleHelpers 150" and now = 1000]
    by (simp add: exampleView_simps defaultProps_def orElse_def)
qed

text \<open>
  C8 as stated fails when the client's \<open>onPanResponderMove\<close> claims the event: with three
  active touches and a started gesture the handler returns \<open>false\<close>, not \<open>true\<close>, and the
  gesture stays started.
\<close>

theorem handlePanResponderMove_veto_three_touches_counterexample:
  "2 < numberActiveTouches (exampleGesture 3 0 0)
   \<and> gestureStarted ((exampleView vetoProps)\<lparr>gestureStarted := True\<rparr>)
   \<and> fst (handlePanResponderMove (exampleHelpers 150) 1000 exampleEvent (exampleGesture 3 0 0)
        ((exampleView vetoProps)\<lparr>gestureStarted := True\<rparr>)) = Some False
   \<and> gestureStarted (snd (handlePanResponderMove (exampleHelpers 150) 1000 exampleEvent
        (exampleGesture 3 0 0) ((exampleView vetoProps)\<lparr>gestureStarted := True\<rparr>)))"
proof -
  have claimed: "handlePanResponderMove (exampleHelpers 150) 1000 exampleEvent (exampleGesture 3 0 0)
      ((exampleView vetoProps)\<lparr>gestureStarted := True\<rparr>) =
      (Some False, (exampleView vetoProps)\<lparr>gestureStarted := True\<rparr>)"
    by (simp only: handlePanResponderMove_def vetoView_simps if_True)
  show ?thesis
    by (simp add: claimed) (simp add: exampleGesture_def)
qed

end
